theory Spec2Isabelle
  imports Main "HOL-Library.Word"
begin

section \<open>The TensorRT converter interface: convert\_nodes.h\<close>

text \<open>
  A shallow embedding of the code that
  \<^verbatim>\<open>tensorflow/contrib/tensorrt/convert/convert_nodes.h\<close> defines inline: the two
  constructors of \<^verbatim>\<open>EngineConnection\<close> and its \<^verbatim>\<open>is_control_edge\<close>, the default
  constructor of \<^verbatim>\<open>EngineInfo\<close>, and the discriminator and the checked accessors of
  \<^verbatim>\<open>TRT_TensorOrWeights\<close>.

  The header only declares \<^verbatim>\<open>ConvertSegmentToGraphDef\<close>, \<^verbatim>\<open>ConvertGraphDefToEngine\<close>,
  the constructors of \<^verbatim>\<open>TRT_ShapedWeights\<close>, \<^verbatim>\<open>TRT_TensorOrWeights\<close> and \<^verbatim>\<open>Converter\<close>,
  and the operations of \<^verbatim>\<open>Converter\<close>; their bodies are in \<^verbatim>\<open>convert_nodes.cc\<close>, which is not among the sources, and
  are not modelled.

  What the header takes from other headers is a parameter of the model:
  \<^item> the types \<^verbatim>\<open>tensorflow::PartialTensorShape\<close>, \<^verbatim>\<open>tensorflow::DataType\<close>,
    \<^verbatim>\<open>tensorflow::GraphDef\<close>, \<^verbatim>\<open>nvinfer1::Dims\<close> and the pointer types are type
    variables;
  \<^item> the constants \<^verbatim>\<open>Graph::kControlSlot\<close> (graph.h) and \<^verbatim>\<open>FP32MODE\<close>
    (convert/utils.h), and the values that the default constructors of
    \<^verbatim>\<open>PartialTensorShape\<close> and \<^verbatim>\<open>GraphDef\<close> build, are arguments of the functions
    that use them.
\<close>

subsection \<open>Machine integers\<close>

text \<open>C++ \<^verbatim>\<open>int\<close> is a 32-bit word, \<^verbatim>\<open>int64\<close> a 64-bit word.\<close>

type_synonym cint = "32 word"

type_synonym int64 = "64 word"

subsection \<open>EngineConnection\<close>

text \<open>
  The members in the order of the struct. \<^verbatim>\<open>connection_type\<close> has no initialiser in
  either constructor and \<^verbatim>\<open>DataType\<close> is an enum, so its value after construction is
  indeterminate: \<open>None\<close> stands for "not set yet". The two shapes are default
  constructed.
\<close>

record ('shape, 'dtype) EngineConnection =
  outside_node_name :: string
  outside_id :: cint
  outside_port :: cint
  outside_shape :: 'shape
  inside_node_name :: string
  inside_id :: cint
  inside_port :: cint
  inside_shape :: 'shape
  connection_type :: "'dtype option"
  is_input_edge :: bool
  port_number :: cint

text \<open>
  \<^verbatim>\<open>EngineConnection(outside, out_id, out_port, inside, in_id, in_port, input_edge, port)\<close>:
  "Constructs a non-control edge." \<open>default_shape\<close> is the default-constructed
  \<^verbatim>\<open>PartialTensorShape\<close>.
\<close>

definition EngineConnection_ctor ::
  "'shape \<Rightarrow> string \<Rightarrow> cint \<Rightarrow> cint \<Rightarrow> string \<Rightarrow> cint \<Rightarrow> cint \<Rightarrow> bool \<Rightarrow> cint
    \<Rightarrow> ('shape, 'dtype) EngineConnection" where
  "EngineConnection_ctor default_shape outside out_id out_port inside in_id in_port
      input_edge port =
     \<lparr> outside_node_name = outside,
       outside_id = out_id,
       outside_port = out_port,
       outside_shape = default_shape,
       inside_node_name = inside,
       inside_id = in_id,
       inside_port = in_port,
       inside_shape = default_shape,
       connection_type = None,
       is_input_edge = input_edge,
       port_number = port \<rparr>"

text \<open>
  \<^verbatim>\<open>EngineConnection(outside, out_id, inside, in_id, input_edge)\<close>: "Constructs a control
  edge." \<open>kControlSlot\<close> is \<^verbatim>\<open>Graph::kControlSlot\<close>.
\<close>

definition EngineConnection_ctor_control ::
  "cint \<Rightarrow> 'shape \<Rightarrow> string \<Rightarrow> cint \<Rightarrow> string \<Rightarrow> cint \<Rightarrow> bool
    \<Rightarrow> ('shape, 'dtype) EngineConnection" where
  "EngineConnection_ctor_control kControlSlot default_shape outside out_id inside in_id
      input_edge =
     \<lparr> outside_node_name = outside,
       outside_id = out_id,
       outside_port = kControlSlot,
       outside_shape = default_shape,
       inside_node_name = inside,
       inside_id = in_id,
       inside_port = kControlSlot,
       inside_shape = default_shape,
       connection_type = None,
       is_input_edge = input_edge,
       port_number = kControlSlot \<rparr>"

text \<open>\<^verbatim>\<open>bool is_control_edge() const { return port_number == Graph::kControlSlot; }\<close>\<close>

definition is_control_edge :: "cint \<Rightarrow> ('shape, 'dtype) EngineConnection \<Rightarrow> bool" where
  "is_control_edge kControlSlot c = (port_number c = kControlSlot)"

subsection \<open>EngineInfo\<close>

datatype EngineType = TRTStatic | TRTDynamic

text \<open>
  The enumerators carry explicit values: \<^verbatim>\<open>TRTStatic = 0, TRTDynamic = 1\<close>.
\<close>

fun EngineType_value :: "EngineType \<Rightarrow> cint" where
  "EngineType_value TRTStatic = 0"
| "EngineType_value TRTDynamic = 1"

text \<open>
  \<^verbatim>\<open>maximum_cached_engines\<close> is an \<^verbatim>\<open>int\<close> that the constructor does not initialise:
  \<open>None\<close> stands for its indeterminate value.
\<close>

record ('shape, 'dtype, 'graphdef) EngineInfo =
  engine_name :: string
  device :: string
  segment_graph_def :: 'graphdef
  connections :: "('shape, 'dtype) EngineConnection list"
  engine_type :: EngineType
  max_workspace_size_bytes :: int64
  maximum_cached_engines :: "cint option"
  cached_engine_batches :: "cint list"
  precision_mode :: cint

text \<open>
  \<^verbatim>\<open>EngineInfo() : engine_type(EngineType::TRTStatic), max_workspace_size_bytes(0),
  precision_mode(FP32MODE) {}\<close>. The strings and the vectors are default constructed
  (empty); \<open>default_graph_def\<close> is the default-constructed \<^verbatim>\<open>GraphDef\<close>.
\<close>

definition EngineInfo_ctor ::
  "cint \<Rightarrow> 'graphdef \<Rightarrow> ('shape, 'dtype, 'graphdef) EngineInfo" where
  "EngineInfo_ctor FP32MODE default_graph_def =
     \<lparr> engine_name = [],
       device = [],
       segment_graph_def = default_graph_def,
       connections = [],
       engine_type = TRTStatic,
       max_workspace_size_bytes = 0,
       maximum_cached_engines = None,
       cached_engine_batches = [],
       precision_mode = FP32MODE \<rparr>"

subsection \<open>TRT\_ShapedWeights and TRT\_TensorOrWeights\<close>

text \<open>
  The members of the classes end in an underscore in the source (\<^verbatim>\<open>shape_\<close>,
  \<^verbatim>\<open>tensor_\<close>, ...), which is no name of a constant here: the fields carry
  the suffix \<open>_m\<close> instead.
\<close>

record ('dims, 'dtype, 'ptr) TRT_ShapedWeights =
  shape_m :: 'dims
  type_m :: 'dtype
  values_m :: 'ptr

text \<open>\<^verbatim>\<open>const void* GetValues() const { return values_; }\<close>\<close>

definition GetValues :: "('dims, 'dtype, 'ptr) TRT_ShapedWeights \<Rightarrow> 'ptr" where
  "GetValues w = values_m w"

text \<open>
  \<^verbatim>\<open>nvinfer1::ITensor* tensor_; TRT_ShapedWeights weights_; const bool is_tensor_;\<close>
  Both members are always there; \<^verbatim>\<open>is_tensor_\<close> says which one is meant.
\<close>

record ('tensor, 'dims, 'dtype, 'ptr) TRT_TensorOrWeights =
  tensor_m :: 'tensor
  weights_m :: "('dims, 'dtype, 'ptr) TRT_ShapedWeights"
  is_tensor_m :: bool

text \<open>
  \<^verbatim>\<open>bool is_tensor() const { return is_tensor_; }\<close> and
  \<^verbatim>\<open>bool is_weights() const { return !is_tensor_; }\<close>
\<close>

definition is_tensor :: "('tensor, 'dims, 'dtype, 'ptr) TRT_TensorOrWeights \<Rightarrow> bool" where
  "is_tensor x = is_tensor_m x"

definition is_weights :: "('tensor, 'dims, 'dtype, 'ptr) TRT_TensorOrWeights \<Rightarrow> bool" where
  "is_weights x = (\<not> is_tensor_m x)"

text \<open>
  \<^verbatim>\<open>CHECK(cond)\<close> logs a fatal message and aborts the process when \<open>cond\<close> is false;
  the abort is the error value of the accessors.
\<close>

datatype fatal = CHECK_failed

text \<open>
  \<^verbatim>\<open>tensor() { CHECK(is_tensor()); return tensor_; }\<close>; the const and the non-const
  overload have the same body.
\<close>

definition tensor ::
  "('tensor, 'dims, 'dtype, 'ptr) TRT_TensorOrWeights \<Rightarrow> fatal + 'tensor" where
  "tensor x = (if is_tensor x then Inr (tensor_m x) else Inl CHECK_failed)"

text \<open>
  \<^verbatim>\<open>weights() { CHECK(is_weights()); return weights_; }\<close>; again both overloads.
\<close>

definition weights ::
  "('tensor, 'dims, 'dtype, 'ptr) TRT_TensorOrWeights
    \<Rightarrow> fatal + ('dims, 'dtype, 'ptr) TRT_ShapedWeights" where
  "weights x = (if is_weights x then Inr (weights_m x) else Inl CHECK_failed)"

subsection \<open>Example values\<close>

text \<open>
  Two values to run the accessors on: one that holds tensor \<open>7\<close>, one that holds
  weights of dimensions \<open>[2, 3]\<close> (tensors and buffers are numbered, a data type is
  the number of its enumerator).
\<close>

definition example_weights :: "(nat list, nat, nat) TRT_ShapedWeights" where
  "example_weights = \<lparr>shape_m = [2, 3], type_m = 1, values_m = 40\<rparr>"

definition example_empty_weights :: "(nat list, nat, nat) TRT_ShapedWeights" where
  "example_empty_weights = \<lparr>shape_m = [], type_m = 1, values_m = 0\<rparr>"

definition example_holds_tensor :: "(nat, nat list, nat, nat) TRT_TensorOrWeights" where
  "example_holds_tensor =
     \<lparr>tensor_m = 7, weights_m = example_empty_weights, is_tensor_m = True\<rparr>"

definition example_holds_weights :: "(nat, nat list, nat, nat) TRT_TensorOrWeights" where
  "example_holds_weights =
     \<lparr>tensor_m = 0, weights_m = example_weights, is_tensor_m = False\<rparr>"

section \<open>Properties\<close>

subsection \<open>The tensor-or-weights union\<close>

text \<open>
  C4. For every \<^verbatim>\<open>TRT_TensorOrWeights\<close> value, \<^verbatim>\<open>is_weights()\<close> is the negation of
  \<^verbatim>\<open>is_tensor()\<close>. The accessor \<^verbatim>\<open>tensor()\<close> passes its \<^verbatim>\<open>CHECK\<close> and returns the
  stored tensor exactly when \<^verbatim>\<open>is_tensor()\<close> holds, and fails it exactly when
  \<^verbatim>\<open>is_weights()\<close> holds; \<^verbatim>\<open>weights()\<close> passes its \<^verbatim>\<open>CHECK\<close> and returns the stored
  weights exactly when \<^verbatim>\<open>is_weights()\<close> holds, and fails it exactly when
  \<^verbatim>\<open>is_tensor()\<close> holds. So under the accessor's own precondition its failing
  branch is not taken.
\<close>

theorem TRT_TensorOrWeights_exclusive_union:
  fixes x :: "('tensor, 'dims, 'dtype, 'ptr) TRT_TensorOrWeights"
  shows "is_weights x = (\<not> is_tensor x)
    \<and> (tensor x = Inr (tensor_m x)) = is_tensor x
    \<and> (tensor x = Inl CHECK_failed) = is_weights x
    \<and> (weights x = Inr (weights_m x)) = is_weights x
    \<and> (weights x = Inl CHECK_failed) = is_tensor x"
proof -
  have neg: "is_weights x = (\<not> is_tensor x)"
    by (simp add: is_weights_def is_tensor_def)
  show ?thesis
  proof (cases "is_tensor x")
    case True
    with neg have "\<not> is_weights x" by simp
    with True show ?thesis by (simp add: tensor_def weights_def)
  next
    case False
    with neg have "is_weights x" by simp
    with False show ?thesis by (simp add: tensor_def weights_def)
  qed
qed

text \<open>The theorem at the value that holds a tensor and at the one that holds weights.\<close>

theorem TRT_TensorOrWeights_exclusive_union_witness:
  "tensor example_holds_tensor = Inr 7
    \<and> weights example_holds_tensor = Inl CHECK_failed
    \<and> weights example_holds_weights = Inr example_weights
    \<and> tensor example_holds_weights = Inl CHECK_failed"
  using
    TRT_TensorOrWeights_exclusive_union [of example_holds_tensor]
    TRT_TensorOrWeights_exclusive_union [of example_holds_weights]
  by (simp add: is_tensor_def is_weights_def example_holds_tensor_def
      example_holds_weights_def)

subsection \<open>Engine connections\<close>

text \<open>
  C9. For every \<^verbatim>\<open>EngineConnection\<close> built with the control-edge constructor,
  \<^verbatim>\<open>outside_port\<close>, \<^verbatim>\<open>inside_port\<close> and \<^verbatim>\<open>port_number\<close> all equal
  \<^verbatim>\<open>Graph::kControlSlot\<close> and \<^verbatim>\<open>is_control_edge()\<close> returns true; for every
  \<^verbatim>\<open>EngineConnection\<close> built with the non-control-edge constructor with port
  argument \<open>p\<close>, \<^verbatim>\<open>port_number\<close> equals \<open>p\<close> and \<^verbatim>\<open>is_control_edge()\<close> returns true
  exactly when \<open>p\<close> equals \<^verbatim>\<open>Graph::kControlSlot\<close>. This holds whatever value
  \<^verbatim>\<open>Graph::kControlSlot\<close> has.
\<close>

theorem EngineConnection_constructors_ports:
  "outside_port (EngineConnection_ctor_control kControlSlot default_shape outside out_id
        inside in_id input_edge :: ('shape, 'dtype) EngineConnection) = kControlSlot
    \<and> inside_port (EngineConnection_ctor_control kControlSlot default_shape outside out_id
        inside in_id input_edge :: ('shape, 'dtype) EngineConnection) = kControlSlot
    \<and> port_number (EngineConnection_ctor_control kControlSlot default_shape outside out_id
        inside in_id input_edge :: ('shape, 'dtype) EngineConnection) = kControlSlot
    \<and> is_control_edge kControlSlot (EngineConnection_ctor_control kControlSlot default_shape
        outside out_id inside in_id input_edge :: ('shape, 'dtype) EngineConnection)
    \<and> port_number (EngineConnection_ctor default_shape outside' out_id' out_port inside'
        in_id' in_port input_edge' p :: ('shape, 'dtype) EngineConnection) = p
    \<and> is_control_edge kControlSlot (EngineConnection_ctor default_shape outside' out_id'
        out_port inside' in_id' in_port input_edge' p :: ('shape, 'dtype) EngineConnection)
      = (p = kControlSlot)"
proof -
  define c :: "('shape, 'dtype) EngineConnection"
    where "c = EngineConnection_ctor_control kControlSlot default_shape outside out_id
      inside in_id input_edge"
  define n :: "('shape, 'dtype) EngineConnection"
    where "n = EngineConnection_ctor default_shape outside' out_id' out_port inside' in_id'
      in_port input_edge' p"
  have ports: "outside_port c = kControlSlot" "inside_port c = kControlSlot"
      "port_number c = kControlSlot"
    unfolding c_def by (simp_all add: EngineConnection_ctor_control_def)
  have port: "port_number n = p"
    unfolding n_def by (simp add: EngineConnection_ctor_def)
  from ports have control: "is_control_edge kControlSlot c"
    by (simp add: is_control_edge_def)
  from port have data: "is_control_edge kControlSlot n = (p = kControlSlot)"
    by (simp add: is_control_edge_def)
  from ports control port data show ?thesis
    unfolding c_def n_def by simp
qed

text \<open>
  The theorem with \<open>-1\<close> for the control slot: a control edge between nodes \<open>3\<close> and
  \<open>5\<close>, and a data edge on port \<open>2\<close> of the engine.
\<close>

theorem EngineConnection_constructors_ports_witness:
  "port_number (EngineConnection_ctor_control (- 1) () ''a'' 3 ''b'' 5 True
      :: (unit, unit) EngineConnection) = - 1
    \<and> is_control_edge (- 1) (EngineConnection_ctor_control (- 1) () ''a'' 3 ''b'' 5 True
      :: (unit, unit) EngineConnection)
    \<and> port_number (EngineConnection_ctor () ''a'' 3 0 ''b'' 5 1 True 2
      :: (unit, unit) EngineConnection) = 2
    \<and> \<not> is_control_edge (- 1) (EngineConnection_ctor () ''a'' 3 0 ''b'' 5 1 True 2
      :: (unit, unit) EngineConnection)"
  using EngineConnection_constructors_ports
    [where ?'shape = unit and ?'dtype = unit and kControlSlot = "- 1"
       and default_shape = "()" and outside = "''a''" and out_id = 3 and inside = "''b''"
       and in_id = 5 and input_edge = True and outside' = "''a''" and out_id' = 3
       and out_port = 0 and inside' = "''b''" and in_id' = 5 and in_port = 1
       and input_edge' = True and p = 2]
  by simp

subsection \<open>Engine information\<close>

text \<open>
  C10. A default-constructed \<^verbatim>\<open>EngineInfo\<close> has \<^verbatim>\<open>engine_type\<close> equal to
  \<^verbatim>\<open>EngineType::TRTStatic\<close>, \<^verbatim>\<open>max_workspace_size_bytes\<close> equal to \<open>0\<close> and
  \<^verbatim>\<open>precision_mode\<close> equal to \<^verbatim>\<open>FP32MODE\<close>.
\<close>

theorem EngineInfo_default_constructed:
  "engine_type (EngineInfo_ctor FP32MODE default_graph_def
        :: ('shape, 'dtype, 'graphdef) EngineInfo) = TRTStatic
    \<and> max_workspace_size_bytes (EngineInfo_ctor FP32MODE default_graph_def
        :: ('shape, 'dtype, 'graphdef) EngineInfo) = 0
    \<and> precision_mode (EngineInfo_ctor FP32MODE default_graph_def
        :: ('shape, 'dtype, 'graphdef) EngineInfo) = FP32MODE"
  by (simp add: EngineInfo_ctor_def)

text \<open>
  The theorem with \<open>0\<close> for \<^verbatim>\<open>FP32MODE\<close>; the engine type is the enumerator of
  value \<open>0\<close>.
\<close>

theorem EngineInfo_default_constructed_witness:
  "engine_type (EngineInfo_ctor 0 () :: (unit, unit, unit) EngineInfo) = TRTStatic
    \<and> EngineType_value (engine_type (EngineInfo_ctor 0 () :: (unit, unit, unit) EngineInfo)) = 0
    \<and> max_workspace_size_bytes (EngineInfo_ctor 0 () :: (unit, unit, unit) EngineInfo) = 0
    \<and> precision_mode (EngineInfo_ctor 0 () :: (unit, unit, unit) EngineInfo) = 0"
  using EngineInfo_default_constructed
    [where ?'shape = unit and ?'dtype = unit and ?'graphdef = unit and FP32MODE = 0
       and default_graph_def = "()"]
  by simp

end
